theory Spec2Isabelle
  imports Main
begin

text \<open>
  The notebook \<^verbatim>\<open>book1/supplements/opt_jax.ipynb\<close> fits a binary logistic regression by
  minibatch stochastic gradient descent. This theory embeds its batch stream
  (\<^verbatim>\<open>make_batch_stream\<close>) and its two training loops (\<^verbatim>\<open>sgd\<close> and \<^verbatim>\<open>sgd_jax\<close>). The
  loops are embedded for any loss function, gradient function and optimizer, as the
  notebook passes them in; the floating-point objective itself is not part of the model.
\<close>

section \<open>Errors\<close>

text \<open>
  The exceptions that the modelled cells of \<^verbatim>\<open>opt_jax.ipynb\<close> can raise:
  \<^item> \<open>ValueError\<close>: \<^verbatim>\<open>from_tensor_slices\<close> on components whose first dimensions differ,
    and \<^verbatim>\<open>Dataset.batch\<close> with a batch size that is no 64-bit signed integer;
  \<^item> \<open>InvalidArgumentError\<close>: \<^verbatim>\<open>Dataset.batch\<close> with a batch size that is not positive
    ("Batch size must be greater than zero");
  \<^item> \<open>UnboundLocalError\<close>: a read of a local variable that no statement has assigned yet.
\<close>

datatype error = ValueError | InvalidArgumentError | UnboundLocalError

section \<open>Minibatches\<close>

text \<open>
  \<^verbatim>\<open>
  def make_batch_stream(X_train, y_train, batch_size):
    dataset = tf.data.Dataset.from_tensor_slices({"X": X_train, "y": y_train})
    batches = dataset.batch(batch_size)
    batch_stream = tfds.as_numpy(batches)  # finite iterable of dict of NumPy arrays
    N = X_train.shape[0]
    nbatches = int(np.floor(N/batch_size))
    print('{} examples split into {} batches of size {}'.format(N, nbatches, batch_size))
    return batch_stream
  \<close>
  An array is the list of its rows. Every dictionary of the stream has exactly the keys
  \<^verbatim>\<open>"X"\<close> and \<^verbatim>\<open>"y"\<close>, so it is a record with these two fields.
\<close>

record ('x, 'y) batch_dict =
  key_X :: 'x
  key_y :: 'y

text \<open>
  \<^verbatim>\<open>from_tensor_slices\<close> slices every component along its first dimension: element \<open>i\<close>
  of the dataset is \<^verbatim>\<open>{"X": X_train[i], "y": y_train[i]}\<close>. The components must agree
  in their first dimension.
\<close>

definition from_tensor_slices :: "'r list \<Rightarrow> 't list \<Rightarrow> error + ('r, 't) batch_dict list" where
  "from_tensor_slices X_train y_train =
     (if length X_train \<noteq> length y_train then Inl ValueError
      else Inr (map (\<lambda>(r, t). \<lparr>key_X = r, key_y = t\<rparr>) (zip X_train y_train)))"

text \<open>
  \<^verbatim>\<open>Dataset.batch(batch_size, drop_remainder=False)\<close> groups consecutive elements.
  A last group of fewer than \<open>batch_size\<close> elements is dropped only when
  \<open>drop_remainder\<close> is set; the library's default, which \<^verbatim>\<open>make_batch_stream\<close> takes,
  keeps it as a smaller batch. The batch size is converted to a 64-bit signed integer
  first, which fails outside that range; a converted size that is not positive is then
  refused.
\<close>

fun batch_groups :: "nat \<Rightarrow> bool \<Rightarrow> 'e list \<Rightarrow> 'e list list" where
  "batch_groups n drop_remainder es =
     (if n = 0 then []
      else if length es < n then (if drop_remainder \<or> es = [] then [] else [es])
      else take n es # batch_groups n drop_remainder (drop n es))"

declare batch_groups.simps [simp del]

text \<open>A batch stacks the components of its elements.\<close>

definition stack :: "('r, 't) batch_dict list \<Rightarrow> ('r list, 't list) batch_dict" where
  "stack es = \<lparr>key_X = map key_X es, key_y = map key_y es\<rparr>"

definition dataset_batch ::
  "('r, 't) batch_dict list \<Rightarrow> int \<Rightarrow> bool \<Rightarrow> error + ('r list, 't list) batch_dict list" where
  "dataset_batch dataset batch_size drop_remainder =
     (if batch_size < - (2 ^ 63) \<or> 2 ^ 63 \<le> batch_size then Inl ValueError
      else if batch_size \<le> 0 then Inl InvalidArgumentError
      else Inr (map stack (batch_groups (nat batch_size) drop_remainder dataset)))"

text \<open>
  What a \<^verbatim>\<open>for\<close> loop can pass over. A Python iterable is of one of two kinds:
  \<^item> \<open>IterableDataset batches\<close>: an object whose \<^verbatim>\<open>__iter__\<close> makes a new iterator
    that starts at the first element of \<open>batches\<close>; no loop changes the object;
  \<^item> \<open>Iterator rest\<close>: an iterator (a generator, the result of \<^verbatim>\<open>iter\<close>), whose
    \<^verbatim>\<open>__iter__\<close> returns the object itself; \<open>rest\<close> is what it has not yielded yet, and
    what a loop has taken from it is gone.
  \<open>for_pass\<close> is a \<^verbatim>\<open>for\<close> loop that runs to the end (none of the loops here leaves
  early): the elements it binds, in order, and the iterable after it.
\<close>

datatype 'b iterable = IterableDataset "'b list" | Iterator "'b list"

fun for_pass :: "'b iterable \<Rightarrow> 'b list \<times> 'b iterable" where
  "for_pass (IterableDataset batches) = (batches, IterableDataset batches)"
| "for_pass (Iterator rest) = (rest, Iterator [])"

text \<open>
  \<^verbatim>\<open>tfds.as_numpy\<close> wraps the batched dataset in an object of the first kind, an
  iterable of dictionaries of arrays over the batches of the dataset in their order. The
  pipeline has no shuffling stage.
\<close>

definition as_numpy :: "'b list \<Rightarrow> 'b iterable" where
  "as_numpy batches = IterableDataset batches"

text \<open>
  The result is the returned stream together with the three numbers of the printed line,
  \<open>(N, nbatches, batch_size)\<close>. For a positive batch size,
  \<^verbatim>\<open>int(np.floor(N/batch_size))\<close> is \<open>N div batch_size\<close>.
\<close>

definition make_batch_stream ::
  "'r list \<Rightarrow> 't list \<Rightarrow> int \<Rightarrow>
   error + ((int \<times> int \<times> int) \<times> ('r list, 't list) batch_dict iterable)" where
  "make_batch_stream X_train y_train batch_size =
     (case from_tensor_slices X_train y_train of
        Inl e \<Rightarrow> Inl e
      | Inr dataset \<Rightarrow>
          (case dataset_batch dataset batch_size False of
             Inl e \<Rightarrow> Inl e
           | Inr batches \<Rightarrow>
               (let batch_stream = as_numpy batches;
                    N = int (length X_train);
                    nbatches = N div batch_size
                in Inr ((N, nbatches, batch_size), batch_stream))))"

section \<open>SGD from scratch\<close>

text \<open>
  \<^verbatim>\<open>
  def sgd(params, loss_fn, grad_loss_fn, batch_iter, max_epochs, lr):
      print_every = max(1, int(0.1*max_epochs))
      for epoch in range(max_epochs):
          epoch_loss = 0.0
          for batch_dict in batch_iter:
              x, y = batch_dict["X"], batch_dict["y"]
              batch = (x, y)
              batch_grad = grad_loss_fn(params, batch)
              params = params - lr*batch_grad
              batch_loss = loss_fn(params, batch) # Average loss within this batch
              epoch_loss += batch_loss
          if epoch % print_every == 0:
              print('Epoch {}, batch Loss {}'.format(epoch, batch_loss))
      return params,
  \<close>
  Parameters, gradients and the learning rate are values of one array type with
  subtraction and (broadcast) multiplication; no law of arithmetic is assumed of them.
  The batch stream is a finite iterable that every \<^verbatim>\<open>for\<close> loop passes over from its
  first batch, as the one \<^verbatim>\<open>make_batch_stream\<close> returns: the list of its batches.
  A local variable that may be read before it is assigned is an \<open>option\<close>, \<open>None\<close> while
  unbound. \<^verbatim>\<open>int(0.1*max_epochs)\<close> is \<open>max_epochs div 10\<close> wherever it exceeds 1.
\<close>

definition print_every_of :: "int \<Rightarrow> int" where
  "print_every_of max_epochs = max 1 (max_epochs div 10)"

text \<open>The inner loop, on the locals \<open>(params, batch_loss, epoch_loss)\<close>.\<close>

fun sgd_batches ::
  "('a \<Rightarrow> 'x \<times> 'y \<Rightarrow> 'l) \<Rightarrow> ('a \<Rightarrow> 'x \<times> 'y \<Rightarrow> 'a) \<Rightarrow> 'a \<Rightarrow> ('x, 'y) batch_dict list \<Rightarrow>
   ('a::{minus,times}) \<times> 'l option \<times> ('l::{zero,plus}) \<Rightarrow> 'a \<times> 'l option \<times> 'l" where
  "sgd_batches loss_fn grad_loss_fn lr [] v = v"
| "sgd_batches loss_fn grad_loss_fn lr (batch_dict # rest) (params, _, epoch_loss) =
     (let batch = (key_X batch_dict, key_y batch_dict);
          batch_grad = grad_loss_fn params batch;
          params' = params - lr * batch_grad;
          batch_loss = loss_fn params' batch
      in sgd_batches loss_fn grad_loss_fn lr rest (params', Some batch_loss, epoch_loss + batch_loss))"

text \<open>The loop over the epochs, on \<open>(params, batch_loss, printed)\<close>; \<open>printed\<close> collects
  the pairs \<open>(epoch, batch_loss)\<close> of the printed lines.\<close>

fun sgd_epochs ::
  "('a \<Rightarrow> 'x \<times> 'y \<Rightarrow> 'l) \<Rightarrow> ('a \<Rightarrow> 'x \<times> 'y \<Rightarrow> 'a) \<Rightarrow> 'a \<Rightarrow> ('x, 'y) batch_dict list \<Rightarrow> int \<Rightarrow>
   int list \<Rightarrow> ('a::{minus,times}) \<times> ('l::{zero,plus}) option \<times> (int \<times> 'l) list \<Rightarrow>
   error + 'a \<times> 'l option \<times> (int \<times> 'l) list" where
  "sgd_epochs loss_fn grad_loss_fn lr batch_iter print_every [] v = Inr v"
| "sgd_epochs loss_fn grad_loss_fn lr batch_iter print_every (epoch # epochs)
     (params, batch_loss, printed) =
     (case sgd_batches loss_fn grad_loss_fn lr batch_iter (params, batch_loss, 0) of
        (params', batch_loss', epoch_loss) \<Rightarrow>
          if epoch mod print_every = 0 then
            (case batch_loss' of
               None \<Rightarrow> Inl UnboundLocalError
             | Some l \<Rightarrow> sgd_epochs loss_fn grad_loss_fn lr batch_iter print_every epochs
                 (params', batch_loss', printed @ [(epoch, l)]))
          else sgd_epochs loss_fn grad_loss_fn lr batch_iter print_every epochs
                 (params', batch_loss', printed))"

text \<open>The value of the returned one-element tuple.\<close>

definition sgd ::
  "('a::{minus,times}) \<Rightarrow> ('a \<Rightarrow> 'x \<times> 'y \<Rightarrow> ('l::{zero,plus})) \<Rightarrow> ('a \<Rightarrow> 'x \<times> 'y \<Rightarrow> 'a) \<Rightarrow>
   ('x, 'y) batch_dict list \<Rightarrow> int \<Rightarrow> 'a \<Rightarrow> error + 'a" where
  "sgd params loss_fn grad_loss_fn batch_iter max_epochs lr =
     (let print_every = print_every_of max_epochs
      in case sgd_epochs loss_fn grad_loss_fn lr batch_iter print_every [0 .. max_epochs - 1]
                (params, None, []) of
           Inl e \<Rightarrow> Inl e
         | Inr (params', _, _) \<Rightarrow> Inr params')"

section \<open>SGD with an optimizer triple\<close>

text \<open>
  \<^verbatim>\<open>
  def sgd_jax(params, loss_fn, batch_stream, max_epochs, opt_init, opt_update, get_params):
      loss_history = []
      opt_state = opt_init(params)

      def update(i, opt_state, batch):
          params = get_params(opt_state)
          g = grad(loss_fn)(params, batch)
          return opt_update(i, g, opt_state)

      print_every = max(1, int(0.1*max_epochs))
      total_steps = 0
      for epoch in range(max_epochs):
          epoch_loss = 0.0
          for batch_dict in batch_stream:
              X, y = batch_dict["X"], batch_dict["y"]
              batch = (X, y)
              total_steps += 1
              opt_state = update(total_steps, opt_state, batch)
          params = get_params(opt_state)
          train_loss = np.float(loss_fn(params, batch))
          loss_history.append(train_loss)
          if epoch % print_every == 0:
              print('Epoch {}, batch loss {}'.format(epoch, train_loss))
      return params, loss_history
  \<close>
  \<^verbatim>\<open>grad\<close> is the automatic differentiation operator of the JAX library, taken as the
  first argument of the model. The optimizer state, the parameters and the gradients
  are of any types. \<^verbatim>\<open>epoch_loss\<close> is assigned and never read here, and is left out.
\<close>

definition update ::
  "(('p \<Rightarrow> 'x \<times> 'y \<Rightarrow> 'l) \<Rightarrow> 'p \<Rightarrow> 'x \<times> 'y \<Rightarrow> 'g) \<Rightarrow> ('p \<Rightarrow> 'x \<times> 'y \<Rightarrow> 'l) \<Rightarrow>
   (int \<Rightarrow> 'g \<Rightarrow> 's \<Rightarrow> 's) \<Rightarrow> ('s \<Rightarrow> 'p) \<Rightarrow> int \<Rightarrow> 's \<Rightarrow> 'x \<times> 'y \<Rightarrow> 's" where
  "update grad loss_fn opt_update get_params i opt_state batch =
     (let params = get_params opt_state;
          g = grad loss_fn params batch
      in opt_update i g opt_state)"

text \<open>\<^verbatim>\<open>np.float\<close> is Python's \<^verbatim>\<open>float\<close>: it keeps the value of a scalar.\<close>

definition np_float :: "'l \<Rightarrow> 'l" where
  "np_float l = l"

text \<open>The inner loop, on the locals \<open>(total_steps, opt_state, batch)\<close>; its first
  argument is the closure \<^verbatim>\<open>update\<close>.\<close>

fun sgd_jax_batches ::
  "(int \<Rightarrow> 's \<Rightarrow> 'x \<times> 'y \<Rightarrow> 's) \<Rightarrow> ('x, 'y) batch_dict list \<Rightarrow>
   int \<times> 's \<times> ('x \<times> 'y) option \<Rightarrow> int \<times> 's \<times> ('x \<times> 'y) option" where
  "sgd_jax_batches upd [] v = v"
| "sgd_jax_batches upd (batch_dict # rest) (total_steps, opt_state, _) =
     (let batch = (key_X batch_dict, key_y batch_dict);
          total_steps' = total_steps + 1;
          opt_state' = upd total_steps' opt_state batch
      in sgd_jax_batches upd rest (total_steps', opt_state', Some batch))"

text \<open>The loop over the epochs, on
  \<open>(params, total_steps, opt_state, batch, loss_history, printed)\<close>.\<close>

fun sgd_jax_epochs ::
  "('s \<Rightarrow> 'p) \<Rightarrow> ('p \<Rightarrow> 'x \<times> 'y \<Rightarrow> 'l) \<Rightarrow> (int \<Rightarrow> 's \<Rightarrow> 'x \<times> 'y \<Rightarrow> 's) \<Rightarrow>
   ('x, 'y) batch_dict list \<Rightarrow> int \<Rightarrow> int list \<Rightarrow>
   'p \<times> int \<times> 's \<times> ('x \<times> 'y) option \<times> 'l list \<times> (int \<times> 'l) list \<Rightarrow>
   error + 'p \<times> int \<times> 's \<times> ('x \<times> 'y) option \<times> 'l list \<times> (int \<times> 'l) list" where
  "sgd_jax_epochs get_params loss_fn upd batch_stream print_every [] v = Inr v"
| "sgd_jax_epochs get_params loss_fn upd batch_stream print_every (epoch # epochs)
     (params, total_steps, opt_state, batch, loss_history, printed) =
     (case sgd_jax_batches upd batch_stream (total_steps, opt_state, batch) of
        (total_steps', opt_state', batch') \<Rightarrow>
          (let params' = get_params opt_state'
           in case batch' of
                None \<Rightarrow> Inl UnboundLocalError
              | Some b \<Rightarrow>
                  (let train_loss = np_float (loss_fn params' b);
                       loss_history' = loss_history @ [train_loss];
                       printed' = (if epoch mod print_every = 0
                                   then printed @ [(epoch, train_loss)] else printed)
                   in sgd_jax_epochs get_params loss_fn upd batch_stream print_every epochs
                        (params', total_steps', opt_state', batch', loss_history', printed'))))"

definition sgd_jax ::
  "(('p \<Rightarrow> 'x \<times> 'y \<Rightarrow> 'l) \<Rightarrow> 'p \<Rightarrow> 'x \<times> 'y \<Rightarrow> 'g) \<Rightarrow> 'p \<Rightarrow> ('p \<Rightarrow> 'x \<times> 'y \<Rightarrow> 'l) \<Rightarrow>
   ('x, 'y) batch_dict list \<Rightarrow> int \<Rightarrow> ('p \<Rightarrow> 's) \<Rightarrow> (int \<Rightarrow> 'g \<Rightarrow> 's \<Rightarrow> 's) \<Rightarrow> ('s \<Rightarrow> 'p) \<Rightarrow>
   error + 'p \<times> 'l list" where
  "sgd_jax grad params loss_fn batch_stream max_epochs opt_init opt_update get_params =
     (let loss_history = [];
          opt_state = opt_init params;
          print_every = print_every_of max_epochs;
          total_steps = 0
      in case sgd_jax_epochs get_params loss_fn (update grad loss_fn opt_update get_params)
                batch_stream print_every [0 .. max_epochs - 1]
                (params, total_steps, opt_state, None, loss_history, []) of
           Inl e \<Rightarrow> Inl e
         | Inr (params', _, _, _, loss_history', _) \<Rightarrow> Inr (params', loss_history'))"

subsection \<open>The plain SGD optimizer\<close>

text \<open>
  Modelled from the spec: the optimizer triple of \<^verbatim>\<open>optimizers.sgd\<close> with the schedule
  \<^verbatim>\<open>optimizers.constant\<close>, which the notebook imports from the JAX library:
  \<open>initialize(p) = p\<close>, \<open>step(i, g, params) = params - learningRate * g\<close>,
  \<open>extractParameters(params) = params\<close>, with a constant learning rate.
\<close>

definition optimizers_constant :: "'a \<Rightarrow> int \<Rightarrow> 'a" where
  "optimizers_constant step_size i = step_size"

definition optimizers_sgd_init :: "'a \<Rightarrow> 'a" where
  "optimizers_sgd_init x0 = x0"

definition optimizers_sgd_update :: "(int \<Rightarrow> 'a) \<Rightarrow> int \<Rightarrow> 'a \<Rightarrow> 'a \<Rightarrow> ('a::{minus,times})" where
  "optimizers_sgd_update step_size i g x = x - step_size i * g"

definition optimizers_sgd_get_params :: "'a \<Rightarrow> 'a" where
  "optimizers_sgd_get_params x = x"

section \<open>Notions for the statements\<close>

text \<open>The pair \<^verbatim>\<open>(batch_dict["X"], batch_dict["y"])\<close> that both loops build from a
  dictionary of the stream.\<close>

definition batch_of :: "('x, 'y) batch_dict \<Rightarrow> 'x \<times> 'y" where
  "batch_of batch_dict = (key_X batch_dict, key_y batch_dict)"

text \<open>
  The cell below \<^verbatim>\<open>make_batch_stream\<close> passes over one stream value in several epochs:
  \<^verbatim>\<open>
  for epoch in range(2):
    for batch in batch_stream:
      x, y = batch["X"], batch["y"]
  \<close>
  \<open>stream_epochs n batch_stream\<close> lists, for each of \<open>n\<close> epochs, the pairs that the
  inner loop binds, in order. Each epoch loops over the iterable as the epoch before has
  left it.
\<close>

fun stream_passes :: "int list \<Rightarrow> ('x, 'y) batch_dict iterable \<Rightarrow> ('x \<times> 'y) list list" where
  "stream_passes [] batch_stream = []"
| "stream_passes (epoch # epochs) batch_stream =
     (case for_pass batch_stream of
        (batches, batch_stream') \<Rightarrow> map batch_of batches # stream_passes epochs batch_stream')"

definition stream_epochs :: "int \<Rightarrow> ('x, 'y) batch_dict iterable \<Rightarrow> ('x \<times> 'y) list list" where
  "stream_epochs n batch_stream = stream_passes [0 .. n - 1] batch_stream"

text \<open>The optimizer state of \<^verbatim>\<open>sgd_jax\<close> when \<open>k\<close> passes of its inner loop are done.\<close>

definition opt_state_after ::
  "(int \<Rightarrow> 's \<Rightarrow> 'x \<times> 'y \<Rightarrow> 's) \<Rightarrow> ('x, 'y) batch_dict list \<Rightarrow> 's \<Rightarrow> nat \<Rightarrow> 's" where
  "opt_state_after upd batch_stream opt_state k =
     fst (snd ((sgd_jax_batches upd batch_stream ^^ k) (0, opt_state, None)))"

text \<open>The parameters of a result: its first component, or the error.\<close>

fun final_params :: "error + 'p \<times> 'r \<Rightarrow> error + 'p" where
  "final_params (Inl e) = Inl e"
| "final_params (Inr (params, _)) = Inr params"

subsection \<open>A small run\<close>

text \<open>
  Two batches of one example each, the loss \<open>(x * p - y)\<^sup>2\<close> over the integers and its
  derivative in \<open>p\<close>; and an optimizer whose state is the list of the iteration indices
  that its update function has received.
\<close>

definition toy_stream :: "(int, int) batch_dict list" where
  "toy_stream = [\<lparr>key_X = 1, key_y = 2\<rparr>, \<lparr>key_X = 3, key_y = 1\<rparr>]"

definition toy_loss :: "int \<Rightarrow> int \<times> int \<Rightarrow> int" where
  "toy_loss p batch = (fst batch * p - snd batch) * (fst batch * p - snd batch)"

definition toy_grad :: "(int \<Rightarrow> int \<times> int \<Rightarrow> int) \<Rightarrow> int \<Rightarrow> int \<times> int \<Rightarrow> int" where
  "toy_grad loss_fn p batch = 2 * fst batch * (fst batch * p - snd batch)"






section \<open>Properties of the batch stream\<close>

lemma batch_groups_concat: "0 < n \<Longrightarrow> concat (batch_groups n False es) = es"
proof (induction n "False" es rule: batch_groups.induct)
  case (1 n es)
  then show ?case
    by (subst batch_groups.simps) auto
qed

lemma ceil_small: "0 < (k::nat) \<Longrightarrow> k < n \<Longrightarrow> (k + n - 1) div n = 1"
proof -
  assume a: "0 < k" "k < n"
  then obtain j where j: "k = Suc j" by (cases k) auto
  have "(n + j) div n = 1" using a j by (simp add: div_add_self1)
  moreover have "k + n - 1 = n + j" using j by simp
  ultimately show ?thesis by simp
qed

lemma ceil_step: "0 < (n::nat) \<Longrightarrow> n \<le> k \<Longrightarrow> (k + n - 1) div n = Suc ((k - n + n - 1) div n)"
proof -
  assume a: "0 < n" "n \<le> k"
  then obtain j where j: "k = Suc j" by (cases k) auto
  have "(j + n) div n = Suc (j div n)" using a(1) div_add_self2 [of n j] by simp
  moreover have "k + n - 1 = j + n" using j by simp
  moreover have "k - n + n - 1 = j" using j a by simp
  ultimately show ?thesis by (simp only:)
qed

text \<open>Without \<open>drop_remainder\<close> the number of batches is \<open>N / n\<close> rounded up.\<close>

lemma batch_groups_length:
  "0 < n \<Longrightarrow> length (batch_groups n False es) = (length es + n - 1) div n"
proof (induction n "False" es rule: batch_groups.induct)
  case (1 n es)
  show ?case
  proof (cases "length es < n")
    case True
    then show ?thesis using 1(2) ceil_small [of "length es" n]
      by (subst batch_groups.simps) auto
  next
    case False
    then have "length (batch_groups n False (drop n es)) = (length es - n + n - 1) div n"
      using 1 by simp
    then show ?thesis using False 1(2) ceil_step [of n "length es"]
      by (subst batch_groups.simps) simp
  qed
qed

text \<open>With \<open>drop_remainder\<close> it is \<open>N / n\<close> rounded down, the number that
  \<^verbatim>\<open>make_batch_stream\<close> prints.\<close>

lemma batch_groups_drop_length:
  "0 < n \<Longrightarrow> length (batch_groups n True es) = length es div n"
proof (induction n "True" es rule: batch_groups.induct)
  case (1 n es)
  show ?case
  proof (cases "length es < n")
    case True
    then show ?thesis using 1(2)
      by (subst batch_groups.simps) auto
  next
    case False
    then have "length (batch_groups n True (drop n es)) = (length es - n) div n"
      using 1 by simp
    then show ?thesis using False 1(2)
      by (subst batch_groups.simps) (simp add: le_div_geq)
  qed
qed

lemma from_tensor_slices_ok:
  "length X_train = length y_train \<Longrightarrow>
   \<exists>dataset. from_tensor_slices X_train y_train = Inr dataset \<and>
     map key_X dataset = X_train \<and> map key_y dataset = y_train"
  by (simp add: from_tensor_slices_def map_fst_zip map_snd_zip comp_def case_prod_unfold)

lemma stack_concat:
  "concat (map key_X (map stack gs)) = map key_X (concat gs)"
  "concat (map key_y (map stack gs)) = map key_y (concat gs)"
  by (induction gs) (simp_all add: stack_def)

text \<open>For a valid call the stream holds every row, in the original order, in
  \<open>N / batch_size\<close> rounded up batches, while the printed count is rounded down.\<close>

lemma make_batch_stream_ok:
  assumes "length X_train = length y_train" and "0 < batch_size" and "batch_size < 2 ^ 63"
  shows "\<exists>batch_stream.
     make_batch_stream X_train y_train batch_size =
       Inr ((int (length X_train), int (length X_train) div batch_size, batch_size),
            IterableDataset batch_stream) \<and>
     concat (map key_X batch_stream) = X_train \<and>
     concat (map key_y batch_stream) = y_train \<and>
     length batch_stream = (length X_train + nat batch_size - 1) div nat batch_size"
proof -
  obtain dataset where d: "from_tensor_slices X_train y_train = Inr dataset"
      "map key_X dataset = X_train" "map key_y dataset = y_train"
    using from_tensor_slices_ok [OF assms(1)] by blast
  have n: "0 < nat batch_size" using assms(2) by simp
  let ?gs = "batch_groups (nat batch_size) False dataset"
  have len: "length dataset = length X_train" using d(2) by (metis length_map)
  have eq: "make_batch_stream X_train y_train batch_size =
      Inr ((int (length X_train), int (length X_train) div batch_size, batch_size),
           IterableDataset (map stack ?gs))"
    using assms(2,3)
    by (simp add: make_batch_stream_def d(1) dataset_batch_def as_numpy_def Let_def)
  have cx: "concat (map key_X (map stack ?gs)) = X_train"
    unfolding stack_concat batch_groups_concat [OF n] by (rule d(2))
  have cy: "concat (map key_y (map stack ?gs)) = y_train"
    unfolding stack_concat batch_groups_concat [OF n] by (rule d(3))
  have ln: "length (map stack ?gs) = (length X_train + nat batch_size - 1) div nat batch_size"
    by (simp add: batch_groups_length [OF n] len)
  from eq cx cy ln show ?thesis by blast
qed

text \<open>Every loop over an iterable of the first kind passes over all of it and leaves it
  as it was; a second loop over an iterator finds nothing.\<close>

lemma stream_epochs_IterableDataset:
  "stream_epochs 2 (IterableDataset batches) = [map batch_of batches, map batch_of batches]"
proof -
  have "[0 .. (2::int) - 1] = [0, 1]" by code_simp
  then show ?thesis by (simp add: stream_epochs_def)
qed

lemma stream_epochs_Iterator:
  "stream_epochs 2 (Iterator batches) = [map batch_of batches, []]"
proof -
  have "[0 .. (2::int) - 1] = [0, 1]" by code_simp
  then show ?thesis by (simp add: stream_epochs_def)
qed

text \<open>A batch size above the number of rows gives one batch with all the rows.\<close>

lemma make_batch_stream_oversized:
  assumes "length X_train = length y_train" and "X_train \<noteq> []"
    and "int (length X_train) < batch_size" and "batch_size < 2 ^ 63"
  shows "make_batch_stream X_train y_train batch_size =
     Inr ((int (length X_train), 0, batch_size),
          IterableDataset [\<lparr>key_X = X_train, key_y = y_train\<rparr>])"
proof -
  obtain dataset where d: "from_tensor_slices X_train y_train = Inr dataset"
      "map key_X dataset = X_train" "map key_y dataset = y_train"
    using from_tensor_slices_ok [OF assms(1)] by blast
  have len: "length dataset = length X_train" using d(2) by (metis length_map)
  have ne: "dataset \<noteq> []" using assms(2) d(2) by auto
  have "batch_groups (nat batch_size) False dataset = [dataset]"
    using assms(3) ne len by (subst batch_groups.simps) auto
  then show ?thesis
    using assms(3,4) d(2,3)
    by (simp add: make_batch_stream_def d(1) dataset_batch_def as_numpy_def Let_def stack_def)
qed

text \<open>A batch size that is not positive is refused when the dataset is batched, and one
  outside the 64-bit range when it is converted.\<close>

lemma make_batch_stream_out_of_range:
  assumes "length X_train = length y_train" and "batch_size < - (2 ^ 63) \<or> 2 ^ 63 \<le> batch_size"
  shows "make_batch_stream X_train y_train batch_size = Inl ValueError"
  using assms by (auto simp add: make_batch_stream_def from_tensor_slices_def dataset_batch_def)

lemma make_batch_stream_invalid:
  assumes "length X_train = length y_train" and "batch_size \<le> 0" and "- (2 ^ 63) \<le> batch_size"
  shows "make_batch_stream X_train y_train batch_size = Inl InvalidArgumentError"
  using assms by (simp add: make_batch_stream_def from_tensor_slices_def dataset_batch_def)

section \<open>Properties of the training loops\<close>

subsection \<open>The epochs and the iteration index\<close>

lemma epochs_upto_length: "length [0 .. max_epochs - 1] = nat max_epochs"
  by simp

lemma epochs_upto_Cons: "1 \<le> max_epochs \<Longrightarrow> [0 .. max_epochs - 1] = 0 # [1 .. max_epochs - 1]"
  using upto_rec1 [of 0 "max_epochs - 1"] by simp

lemma upto_shift_Cons: "[n + 1 .. n + 1 + int k] = (n + 1) # [n + 1 + 1 .. n + 1 + int k]"
  by (rule upto_rec1) simp


text \<open>One pass of the inner loop of \<^verbatim>\<open>sgd_jax\<close> from the counter \<open>n\<close>: the batches are
  folded in order, batch number \<open>j\<close> of the pass with the index \<open>n + j\<close>.\<close>

lemma sgd_jax_batches_pass:
  "sgd_jax_batches upd bs (n, s, b) =
     (n + int (length bs),
      foldl (\<lambda>s (i, batch). upd i s batch) s (zip [n + 1 .. n + int (length bs)] (map batch_of bs)),
      if bs = [] then b else Some (batch_of (last bs)))"
proof (induction bs arbitrary: n s b)
  case Nil
  then show ?case by simp
next
  case (Cons d bs)
  have e: "n + int (length (d # bs)) = n + 1 + int (length bs)" by simp
  have "sgd_jax_batches upd (d # bs) (n, s, b) =
        sgd_jax_batches upd bs (n + 1, upd (n + 1) s (batch_of d), Some (batch_of d))"
    by (simp add: batch_of_def Let_def)
  also have "\<dots> = (n + 1 + int (length bs),
      foldl (\<lambda>s (i, batch). upd i s batch) (upd (n + 1) s (batch_of d))
        (zip [n + 1 + 1 .. n + 1 + int (length bs)] (map batch_of bs)),
      if bs = [] then Some (batch_of d) else Some (batch_of (last bs)))"
    by (rule Cons.IH)
  also have "\<dots> = (n + int (length (d # bs)),
      foldl (\<lambda>s (i, batch). upd i s batch) s
        (zip [n + 1 .. n + int (length (d # bs))] (map batch_of (d # bs))),
      if d # bs = [] then b else Some (batch_of (last (d # bs))))"
    unfolding e upto_shift_Cons by simp
  finally show ?case .
qed


lemma sgd_jax_batches_bound:
  "bs \<noteq> [] \<Longrightarrow> snd (snd (sgd_jax_batches upd bs v)) = Some (batch_of (last bs))"
  by (cases v) (simp add: sgd_jax_batches_pass)

subsection \<open>The loop over the epochs of \<^verbatim>\<open>sgd_jax\<close>\<close>

text \<open>Over a stream with at least one batch the loop never fails; it appends one loss
  per epoch, taken at the parameters after that epoch's pass and at the last batch.\<close>

lemma sgd_jax_epochs_run:
  assumes "bs \<noteq> []"
  shows "\<exists>pr'. sgd_jax_epochs gp lf upd bs pe es (p, n, s, b, h, pr) =
     (case (sgd_jax_batches upd bs ^^ length es) (n, s, b) of
        (n', s', b') \<Rightarrow>
          Inr (if es = [] then p else gp s', n', s', b',
               h @ map (\<lambda>k. np_float (lf (gp (fst (snd ((sgd_jax_batches upd bs ^^ Suc k) (n, s, b)))))
                                        (batch_of (last bs)))) [0..<length es],
               pr'))"
proof (induction es arbitrary: p n s b h pr)
  case Nil
  then show ?case by simp
next
  case (Cons e es)
  obtain n1 s1 b1 where v1: "sgd_jax_batches upd bs (n, s, b) = (n1, s1, b1)"
    by (cases "sgd_jax_batches upd bs (n, s, b)") auto
  have b1: "b1 = Some (batch_of (last bs))"
    using sgd_jax_batches_bound [OF assms, of upd "(n, s, b)"] v1 by simp
  let ?l = "np_float (lf (gp s1) (batch_of (last bs)))"
  let ?pr1 = "if e mod pe = 0 then pr @ [(e, ?l)] else pr"
  have step: "sgd_jax_epochs gp lf upd bs pe (e # es) (p, n, s, b, h, pr) =
      sgd_jax_epochs gp lf upd bs pe es (gp s1, n1, s1, b1, h @ [?l], ?pr1)"
    by (simp add: v1 b1 Let_def)
  obtain pr' where ih: "sgd_jax_epochs gp lf upd bs pe es (gp s1, n1, s1, b1, h @ [?l], ?pr1) =
     (case (sgd_jax_batches upd bs ^^ length es) (n1, s1, b1) of
        (n', s', b') \<Rightarrow>
          Inr (if es = [] then gp s1 else gp s', n', s', b',
               (h @ [?l]) @ map (\<lambda>k. np_float (lf (gp (fst (snd ((sgd_jax_batches upd bs ^^ Suc k) (n1, s1, b1)))))
                                        (batch_of (last bs)))) [0..<length es],
               pr'))"
    using Cons.IH by blast
  have shift: "\<And>k. (sgd_jax_batches upd bs ^^ k) (n1, s1, b1) = (sgd_jax_batches upd bs ^^ Suc k) (n, s, b)"
    by (simp add: funpow_Suc_right v1 del: funpow.simps)
  have one: "(sgd_jax_batches upd bs ^^ Suc 0) (n, s, b) = (n1, s1, b1)"
    by (simp add: v1)
  have hist: "(h @ [?l]) @ map (\<lambda>k. np_float (lf (gp (fst (snd ((sgd_jax_batches upd bs ^^ Suc k) (n1, s1, b1)))))
                                        (batch_of (last bs)))) [0..<length es]
      = h @ map (\<lambda>k. np_float (lf (gp (fst (snd ((sgd_jax_batches upd bs ^^ Suc k) (n, s, b)))))
                                        (batch_of (last bs)))) [0..<length (e # es)]"
    unfolding shift
    by (simp add: map_upt_Suc one del: upt_Suc funpow.simps)
  show ?case
    unfolding step ih hist
    unfolding shift
    by (cases es) (auto simp: v1 split: prod.splits)
qed

lemma sgd_jax_run:
  assumes "1 \<le> max_epochs" and "batch_stream \<noteq> []"
  shows "sgd_jax grad params loss_fn batch_stream max_epochs opt_init opt_update get_params =
     Inr (get_params (opt_state_after (update grad loss_fn opt_update get_params) batch_stream
                        (opt_init params) (nat max_epochs)),
          map (\<lambda>k. np_float (loss_fn
                 (get_params (opt_state_after (update grad loss_fn opt_update get_params)
                    batch_stream (opt_init params) (Suc k)))
                 (batch_of (last batch_stream)))) [0..<nat max_epochs])"
proof -
  let ?upd = "update grad loss_fn opt_update get_params"
  obtain pr' where "sgd_jax_epochs get_params loss_fn ?upd batch_stream (print_every_of max_epochs)
        [0 .. max_epochs - 1] (params, 0, opt_init params, None, [], []) =
     (case (sgd_jax_batches ?upd batch_stream ^^ length [0 .. max_epochs - 1]) (0, opt_init params, None) of
        (n', s', b') \<Rightarrow>
          Inr (if [0 .. max_epochs - 1] = [] then params else get_params s', n', s', b',
               [] @ map (\<lambda>k. np_float (loss_fn (get_params (fst (snd ((sgd_jax_batches ?upd batch_stream ^^ Suc k) (0, opt_init params, None)))))
                                        (batch_of (last batch_stream)))) [0..<length [0 .. max_epochs - 1]],
               pr'))"
    using sgd_jax_epochs_run [OF assms(2), where gp = get_params and lf = loss_fn and upd = ?upd
        and pe = "print_every_of max_epochs" and es = "[0 .. max_epochs - 1]" and p = params
        and n = 0 and s = "opt_init params" and b = None and h = "[]" and pr = "[]"]
    by blast
  then show ?thesis
    using assms(1) unfolding sgd_jax_def opt_state_after_def epochs_upto_length
    by (simp add: Let_def split: prod.splits del: funpow.simps)
qed

subsection \<open>The two loops on the plain SGD optimizer\<close>

lemma final_params_sgd_jax:
  "final_params (sgd_jax grad params loss_fn batch_stream max_epochs opt_init opt_update get_params) =
   final_params (sgd_jax_epochs get_params loss_fn (update grad loss_fn opt_update get_params)
      batch_stream (print_every_of max_epochs) [0 .. max_epochs - 1]
      (params, 0, opt_init params, None, [], []))"
  unfolding sgd_jax_def Let_def
  by (cases "sgd_jax_epochs get_params loss_fn (update grad loss_fn opt_update get_params)
      batch_stream (print_every_of max_epochs) [0 .. max_epochs - 1]
      (params, 0, opt_init params, None, [], [])") auto

lemma final_params_sgd:
  "sgd params loss_fn grad_loss_fn batch_iter max_epochs lr =
   final_params (sgd_epochs loss_fn grad_loss_fn lr batch_iter (print_every_of max_epochs)
      [0 .. max_epochs - 1] (params, None, []))"
  unfolding sgd_def Let_def
  by (cases "sgd_epochs loss_fn grad_loss_fn lr batch_iter (print_every_of max_epochs)
      [0 .. max_epochs - 1] (params, None, [])") auto

lemma sgd_batches_params:
  "fst (sgd_batches loss_fn (grad loss_fn) lr bs (p, bl, el)) =
   fst (snd (sgd_jax_batches
     (update grad loss_fn (optimizers_sgd_update (optimizers_constant lr)) optimizers_sgd_get_params)
     bs (n, p, b)))"
  by (induction bs arbitrary: p bl el n b)
     (simp_all add: Let_def update_def optimizers_sgd_update_def optimizers_constant_def
        optimizers_sgd_get_params_def)

lemma sgd_batches_bound:
  "bs \<noteq> [] \<Longrightarrow> fst (snd (sgd_batches loss_fn grad_loss_fn lr bs v)) \<noteq> None"
proof (induction bs arbitrary: v)
  case Nil
  then show ?case by simp
next
  case (Cons d bs)
  obtain p bl el where v: "v = (p, bl, el)" by (cases v) auto
  show ?case
    using Cons.IH unfolding v by (cases "bs = []") (simp_all add: Let_def)
qed

lemma sgd_epochs_params:
  assumes "bs \<noteq> []"
  shows "final_params (sgd_jax_epochs optimizers_sgd_get_params loss_fn
           (update grad loss_fn (optimizers_sgd_update (optimizers_constant lr)) optimizers_sgd_get_params)
           bs pe es (p, n, s, b, h, pr)) =
         (if es = [] then Inr p
          else final_params (sgd_epochs loss_fn (grad loss_fn) lr bs pe es (s, bl, pr2)))"
proof (induction es arbitrary: p n s b h pr bl pr2)
  case Nil
  then show ?case by simp
next
  case (Cons e es)
  let ?upd = "update grad loss_fn (optimizers_sgd_update (optimizers_constant lr)) optimizers_sgd_get_params"
  obtain n1 s1 b1 where j: "sgd_jax_batches ?upd bs (n, s, b) = (n1, s1, b1)"
    by (cases "sgd_jax_batches ?upd bs (n, s, b)") auto
  obtain p1 bl1 el1 where g: "sgd_batches loss_fn (grad loss_fn) lr bs (s, bl, 0) = (p1, bl1, el1)"
    by (cases "sgd_batches loss_fn (grad loss_fn) lr bs (s, bl, 0)") auto
  have same: "p1 = s1"
    using sgd_batches_params [of loss_fn grad lr bs s bl 0 n b] j g by simp
  obtain bb where b1: "b1 = Some bb"
    using sgd_jax_batches_bound [OF assms, of ?upd "(n, s, b)"] j by simp
  obtain l where bl1: "bl1 = Some l"
    using sgd_batches_bound [OF assms, of loss_fn "grad loss_fn" lr "(s, bl, 0)"] g by auto
  have rest: "final_params (sgd_jax_epochs optimizers_sgd_get_params loss_fn ?upd bs pe es
          (s1, n', s1, b', h', pr')) =
      final_params (sgd_epochs loss_fn (grad loss_fn) lr bs pe es (s1, bl', pr2'))"
    for n' b' h' pr' bl' pr2'
  proof (cases "es = []")
    case True
    then show ?thesis by simp
  next
    case False
    show ?thesis
      unfolding Cons.IH [of s1 n' s1 b' h' pr' bl' pr2'] using False by simp
  qed
  show ?case
    by (simp add: j g same b1 bl1 Let_def rest optimizers_sgd_get_params_def [of s1])
qed

section \<open>The claims\<close>

text \<open>
  C1. The claim: \<^verbatim>\<open>make_batch_stream\<close> yields \<open>floor(N / batch_size)\<close> batches of exactly
  \<open>batch_size\<close> rows and drops the remaining rows; 100 rows in batches of 30 give 3
  batches. The function itself prints that count, but the stream it returns keeps the
  remainder: with 100 rows and batches of 30 the printed line says 3 batches while the
  stream has 4, the last of 10 rows.
\<close>

theorem make_batch_stream_keeps_remainder:
  "make_batch_stream [0..<100] (replicate 100 True) 30 =
   Inr ((100, 3, 30),
     IterableDataset
       [\<lparr>key_X = [0..<30], key_y = replicate 30 True\<rparr>,
        \<lparr>key_X = [30..<60], key_y = replicate 30 True\<rparr>,
        \<lparr>key_X = [60..<90], key_y = replicate 30 True\<rparr>,
        \<lparr>key_X = [90..<100], key_y = replicate 10 True\<rparr>])"
  by code_simp

text \<open>
  C2. Over a stream with at least one batch and for at least one epoch, \<^verbatim>\<open>sgd_jax\<close>
  returns a loss history with exactly one entry per epoch; the entry of an epoch is the loss
  function at the parameters extracted from the optimizer state after that epoch's pass,
  on the last batch of the stream, which is the last batch the pass has processed.
\<close>

theorem sgd_jax_loss_history:
  assumes "1 \<le> max_epochs" and "batch_stream \<noteq> []"
  shows "\<exists>params'.
     sgd_jax grad params loss_fn batch_stream max_epochs opt_init opt_update get_params =
       Inr (params',
            map (\<lambda>epoch. np_float (loss_fn
                   (get_params (opt_state_after (update grad loss_fn opt_update get_params)
                      batch_stream (opt_init params) (Suc epoch)))
                   (batch_of (last batch_stream))))
              [0..<nat max_epochs])"
  unfolding sgd_jax_run [OF assms] by simp

text \<open>Two epochs over the two batches of the small run: the history has two entries.\<close>

theorem sgd_jax_loss_history_witness:
  "(1::int) \<le> 2 \<and> toy_stream \<noteq> [] \<and>
   sgd_jax toy_grad 0 toy_loss toy_stream 2
      optimizers_sgd_init (optimizers_sgd_update (optimizers_constant 1)) optimizers_sgd_get_params
     = Inr (- 1116, [34969, 11215801]) \<and>
   (\<exists>params'.
     sgd_jax toy_grad 0 toy_loss toy_stream 2
        optimizers_sgd_init (optimizers_sgd_update (optimizers_constant 1)) optimizers_sgd_get_params =
       Inr (params',
            map (\<lambda>epoch. np_float (toy_loss
                   (optimizers_sgd_get_params (opt_state_after
                      (update toy_grad toy_loss (optimizers_sgd_update (optimizers_constant 1))
                         optimizers_sgd_get_params)
                      toy_stream (optimizers_sgd_init 0) (Suc epoch)))
                   (batch_of (last toy_stream))))
              [0..<nat 2]))"
proof -
  have h1: "(1::int) \<le> 2" by simp
  have h2: "toy_stream \<noteq> []" by (simp add: toy_stream_def)
  have v: "sgd_jax toy_grad 0 toy_loss toy_stream 2
      optimizers_sgd_init (optimizers_sgd_update (optimizers_constant 1)) optimizers_sgd_get_params
     = Inr (- 1116, [34969, 11215801])"
    by code_simp
  show ?thesis
    by (intro conjI h1 h2 v sgd_jax_loss_history [OF h1 h2])
qed

text \<open>
  C3. With the plain SGD optimizer at a constant learning rate, \<^verbatim>\<open>sgd_jax\<close> ends with the
  same parameters as the hand-written loop \<^verbatim>\<open>sgd\<close> that is given the gradient function
  which \<^verbatim>\<open>sgd_jax\<close> differentiates by, over the same stream, epochs and learning rate;
  where one of them fails, so does the other.
\<close>

theorem sgd_jax_plain_sgd:
  "final_params
     (sgd_jax grad params loss_fn batch_stream max_epochs
        optimizers_sgd_init (optimizers_sgd_update (optimizers_constant lr)) optimizers_sgd_get_params) =
   sgd params loss_fn (grad loss_fn) batch_stream max_epochs lr"
proof (cases "batch_stream = []")
  case True
  show ?thesis
  proof (cases "1 \<le> max_epochs")
    case True
    with \<open>batch_stream = []\<close> show ?thesis
      by (simp add: sgd_jax_def sgd_def epochs_upto_Cons)
  next
    case False
    then show ?thesis by (simp add: sgd_jax_def sgd_def)
  qed
next
  case False
  note nonempty = this
  show ?thesis
  proof (cases "1 \<le> max_epochs")
    case False
    then show ?thesis by (simp add: sgd_jax_def sgd_def)
  next
    case True
    then have ne: "[0 .. max_epochs - 1] \<noteq> []" by simp
    have "final_params (sgd_jax_epochs optimizers_sgd_get_params loss_fn
           (update grad loss_fn (optimizers_sgd_update (optimizers_constant lr)) optimizers_sgd_get_params)
           batch_stream (print_every_of max_epochs) [0 .. max_epochs - 1]
           (params, 0, params, None, [], [])) =
         final_params (sgd_epochs loss_fn (grad loss_fn) lr batch_stream (print_every_of max_epochs)
           [0 .. max_epochs - 1] (params, None, []))"
      unfolding sgd_epochs_params [OF nonempty, where bl = None and ?pr2.0 = "[]"]
      using ne by simp
    then show ?thesis
      unfolding final_params_sgd_jax final_params_sgd optimizers_sgd_init_def .
  qed
qed

text \<open>The small run: both loops end at the same parameters.\<close>

theorem sgd_jax_plain_sgd_witness:
  "final_params
     (sgd_jax toy_grad 0 toy_loss toy_stream 2
        optimizers_sgd_init (optimizers_sgd_update (optimizers_constant 1)) optimizers_sgd_get_params) =
   sgd 0 toy_loss (toy_grad toy_loss) toy_stream 2 1 \<and>
   sgd 0 toy_loss (toy_grad toy_loss) toy_stream 2 1 = Inr (- 1116)"
proof -
  have v: "sgd 0 toy_loss (toy_grad toy_loss) toy_stream 2 1 = Inr (- 1116)"
    by code_simp
  show ?thesis
    by (intro conjI v sgd_jax_plain_sgd)
qed

text \<open>
  C5. With \<open>max_epochs = 0\<close> \<^verbatim>\<open>sgd_jax\<close> returns the initial parameters, unchanged, and
  an empty loss history, for every optimizer and stream; \<^verbatim>\<open>sgd\<close>, which returns the
  parameters alone, returns the initial ones.
\<close>

theorem zero_epochs_unchanged:
  "sgd_jax grad params loss_fn batch_stream 0 opt_init opt_update get_params = Inr (params, []) \<and>
   sgd params loss_fn grad_loss_fn batch_stream 0 lr = Inr params"
  by (simp add: sgd_jax_def sgd_def)

text \<open>The small run with no epoch.\<close>

theorem zero_epochs_unchanged_witness:
  "sgd_jax toy_grad 7 toy_loss toy_stream 0
      optimizers_sgd_init (optimizers_sgd_update (optimizers_constant 1)) optimizers_sgd_get_params
     = Inr (7, []) \<and>
   sgd 7 toy_loss (toy_grad toy_loss) toy_stream 0 1 = Inr 7"
  by (rule zero_epochs_unchanged)

text \<open>
  C6. The claim: a batch size that is not positive fails, and a batch size above the number
  of rows gives a stream of zero batches. The first half holds (the batching of the dataset
  raises \<open>InvalidArgumentError\<close>). For the second the function prints a count of 0 batches,
  but the stream it returns has one batch, which holds all the rows.
\<close>

theorem make_batch_stream_oversized_batch:
  "make_batch_stream [1, 2, 3 :: nat] [True, False, True] 0 = Inl InvalidArgumentError \<and>
   make_batch_stream [1, 2, 3 :: nat] [True, False, True] 5 =
     Inr ((3, 0, 5), IterableDataset [\<lparr>key_X = [1, 2, 3], key_y = [True, False, True]\<rparr>])"
  by code_simp

text \<open>
  C7. For features and labels of equal length and a valid batch size (positive, and a
  64-bit signed integer), \<^verbatim>\<open>make_batch_stream\<close> returns an iterable, and two epochs of
  \<^verbatim>\<open>for\<close> loops over that one iterable bind the same sequence of batches: the same
  number, the same contents, the same order, which is the order of the rows. The
  iterable is of the kind that starts a new pass for every loop; of an iterator the
  second epoch would get nothing (\<open>stream_epochs_Iterator\<close>).
\<close>

theorem make_batch_stream_restartable:
  assumes "length X_train = length y_train" and "0 < batch_size" and "batch_size < 2 ^ 63"
  shows "\<exists>printed batch_stream pass.
     make_batch_stream X_train y_train batch_size = Inr (printed, batch_stream) \<and>
     stream_epochs 2 batch_stream = [pass, pass] \<and>
     concat (map fst pass) = X_train \<and>
     concat (map snd pass) = y_train \<and>
     length pass = (length X_train + nat batch_size - 1) div nat batch_size"
proof -
  obtain batches where s:
     "make_batch_stream X_train y_train batch_size =
       Inr ((int (length X_train), int (length X_train) div batch_size, batch_size),
            IterableDataset batches)"
     "concat (map key_X batches) = X_train"
     "concat (map key_y batches) = y_train"
     "length batches = (length X_train + nat batch_size - 1) div nat batch_size"
    using make_batch_stream_ok [OF assms] by blast
  let ?pass = "map batch_of batches"
  have e: "stream_epochs 2 (IterableDataset batches) = [?pass, ?pass]"
    by (rule stream_epochs_IterableDataset)
  have fx: "map fst ?pass = map key_X batches"
    by (simp add: batch_of_def comp_def)
  have fy: "map snd ?pass = map key_y batches"
    by (simp add: batch_of_def comp_def)
  have cx: "concat (map fst ?pass) = X_train"
    unfolding fx by (rule s(2))
  have cy: "concat (map snd ?pass) = y_train"
    unfolding fy by (rule s(3))
  have ln: "length ?pass = (length X_train + nat batch_size - 1) div nat batch_size"
    using s(4) by simp
  from s(1) e cx cy ln show ?thesis by blast
qed

text \<open>Three rows in batches of two: both epochs bind a batch of two rows and then a
  batch of one.\<close>

theorem make_batch_stream_restartable_witness:
  "length [1, 2, 3 :: nat] = length [True, False, True] \<and> (0::int) < 2 \<and> (2::int) < 2 ^ 63 \<and>
   make_batch_stream [1, 2, 3 :: nat] [True, False, True] 2 =
     Inr ((3, 1, 2), IterableDataset [\<lparr>key_X = [1, 2], key_y = [True, False]\<rparr>,
                                      \<lparr>key_X = [3], key_y = [True]\<rparr>]) \<and>
   stream_epochs 2 (IterableDataset [\<lparr>key_X = [1, 2 :: nat], key_y = [True, False]\<rparr>,
                                     \<lparr>key_X = [3], key_y = [True]\<rparr>]) =
     [[([1, 2], [True, False]), ([3], [True])], [([1, 2], [True, False]), ([3], [True])]] \<and>
   (\<exists>printed batch_stream pass.
     make_batch_stream [1, 2, 3 :: nat] [True, False, True] 2 = Inr (printed, batch_stream) \<and>
     stream_epochs 2 batch_stream = [pass, pass] \<and>
     concat (map fst pass) = [1, 2, 3] \<and>
     concat (map snd pass) = [True, False, True] \<and>
     length pass = (length [1, 2, 3 :: nat] + nat 2 - 1) div nat 2)"
proof -
  have h1: "length [1, 2, 3 :: nat] = length [True, False, True]" by simp
  have h2: "(0::int) < 2" by simp
  have h3: "(2::int) < 2 ^ 63" by simp
  have v1: "make_batch_stream [1, 2, 3 :: nat] [True, False, True] 2 =
     Inr ((3, 1, 2), IterableDataset [\<lparr>key_X = [1, 2], key_y = [True, False]\<rparr>,
                                      \<lparr>key_X = [3], key_y = [True]\<rparr>])"
    by code_simp
  have v2: "stream_epochs 2 (IterableDataset [\<lparr>key_X = [1, 2 :: nat], key_y = [True, False]\<rparr>,
                                     \<lparr>key_X = [3], key_y = [True]\<rparr>]) =
     [[([1, 2], [True, False]), ([3], [True])], [([1, 2], [True, False]), ([3], [True])]]"
    by code_simp
  show ?thesis
    by (intro conjI h1 h2 h3 v1 v2 make_batch_stream_restartable [OF h1 h2 h3])
qed



text \<open>
  C10. When the stream has no batch and there is at least one epoch, both loops fail in the
  first epoch, at the read of a local variable that only the inner loop assigns:
  \<^verbatim>\<open>sgd_jax\<close> at \<^verbatim>\<open>batch\<close> in the loss of the epoch, \<^verbatim>\<open>sgd\<close> at \<^verbatim>\<open>batch_loss\<close> in the
  printed line of epoch 0. Neither returns a result, skips the epoch or raises an error of
  its own.
\<close>

theorem empty_epoch_unbound:
  assumes "1 \<le> max_epochs"
  shows "sgd_jax grad params loss_fn [] max_epochs opt_init opt_update get_params = Inl UnboundLocalError \<and>
   sgd params loss_fn grad_loss_fn [] max_epochs lr = Inl UnboundLocalError"
  by (simp add: sgd_jax_def sgd_def epochs_upto_Cons [OF assms])

text \<open>Three epochs over a stream without batches.\<close>

theorem empty_epoch_unbound_witness:
  "(1::int) \<le> 3 \<and>
   sgd_jax toy_grad 0 toy_loss [] 3
      optimizers_sgd_init (optimizers_sgd_update (optimizers_constant 1)) optimizers_sgd_get_params
     = Inl UnboundLocalError \<and>
   sgd 0 toy_loss (toy_grad toy_loss) [] 3 1 = Inl UnboundLocalError"
proof -
  have h1: "(1::int) \<le> 3" by simp
  show ?thesis
    by (intro conjI h1 empty_epoch_unbound [OF h1, THEN conjunct1]
          empty_epoch_unbound [OF h1, THEN conjunct2])
qed

end
